theory Spec2Isabelle
  imports Main "HOL-Library.Word"
begin

section \<open>Go values shared by both packages\<close>

text \<open>
  A byte slice is a list of octets; a nil slice and an empty one are both \<open>[]\<close>, which is
  all the transport distinguishes (it only ever takes \<open>len\<close>). A Go call either returns
  or panics (an index or a slice bound out of range), so a function that can panic returns
  an \<open>exec\<close>.
\<close>

type_synonym byte = "8 word"

datatype 'a exec = Returns 'a | Panics

text \<open>
  \<open>messages.KRBError\<close>: only the error code is consulted here. The type is declared in
  a file of the package that is not part of the development, so is its decoder, which the
  transport takes as a parameter.
\<close>

record KRBError =
  ErrorCode :: int
  EText :: string

text \<open>
  One constructor for each place an error value is made. \<open>fmt.Errorf\<close> with \<open>%v\<close>
  renders the errors it is given into the text of a new, untyped error: the constructor
  keeps them as arguments. \<open>KRBErr\<close> is the typed \<open>messages.KRBError\<close> returned as
  an \<open>error\<close>; \<open>External\<close> is an error made by a collaborator (ASN.1 codec, crypto
  library, keytab).
\<close>

datatype error =
    KRBErr KRBError
  | External string
  | NoKDCsDefined string
  | FailedViaTCP string error
  | NoResponseData string
  | FailedViaUDPThenTCP string error error
  | TooBigThenTCPFailed string error
  | FailedViaTCPThenUDP string error error
  | ErrorResolving
  | ErrorConnecting
  | ErrorSending
  | SendingOverUDPFailed
  | SendingOverTCPFailed
  | CNameMismatch
  | CRealmMismatch
  | ErrorDecryptingASRep error
  | PossibleReplay
  | SNameMismatch
  | TicketSNameMismatch
  | SRealmMismatch
  | AddressesMismatch
  | ClockSkewTooLarge
  | FASTNotAnswered
  | FASTUnmarshalFailed error
  | FASTChecksumTypeFailed error
  | FASTChecksumInvalid
  | KeytabKeyFailed error
  | PasswordKeyFailed error
  | NoSecretAvailable
  | ErrorDecryptingEncPart error
  | ErrorUnmarshallingEncPart error

section \<open>Package client: the KDC transport\<close>

subsection \<open>Configuration\<close>

text \<open>\<open>time.Duration\<close> is a signed 64-bit count of nanoseconds.\<close>

type_synonym Duration = "64 word"

record config_Realm =
  Realm :: string
  Kdc :: "string list"

record LibDefaults =
  Default_realm :: string
  Udp_preference_limit :: int
  Clockskew :: Duration

record Config =
  LibDefaults :: LibDefaults
  Realms :: "config_Realm list"

text \<open>
  Modelled from the spec: \<open>errorcode.KRB_ERR_RESPONSE_TOO_BIG\<close>, declared in package
  iana/errorcode; the spec gives its value in the wire conventions.
\<close>

definition KRB_ERR_RESPONSE_TOO_BIG :: int where
  "KRB_ERR_RESPONSE_TOO_BIG = 52"

subsection \<open>The network and the other collaborators\<close>

text \<open>
  What one exchange on a socket can do, in the order of the calls: the address does not
  resolve, the dial fails, the write fails, the read fails (a datagram read can fail after
  filling some of the buffer), or the read delivers the peer's bytes.
\<close>

datatype net_outcome =
    ResolveFails
  | DialFails
  | WriteFails
  | ReadFails "byte list"
  | ReadOk "byte list"

datatype transport = UDP | TCP

text \<open>
  The trace lists the exchanges started so far, oldest first. The network answers an
  exchange from the KDC address, the bytes written and the number of earlier exchanges,
  so a second TCP exchange may be answered differently from the first.
  \<open>rand_state\<close> stands for the state of the process-wide generator of math/rand.
\<close>

record transport_env =
  KRBError_Unmarshal :: "byte list \<Rightarrow> KRBError option"
  udp_exchange :: "string \<Rightarrow> byte list \<Rightarrow> nat \<Rightarrow> net_outcome"
  tcp_exchange :: "string \<Rightarrow> byte list \<Rightarrow> nat \<Rightarrow> net_outcome"
  rand_state :: nat

text \<open>\<open>rand.Intn(n)\<close> for \<open>n > 0\<close>: some index below \<open>n\<close>, fixed by the generator.\<close>

definition rand_Intn :: "nat \<Rightarrow> nat \<Rightarrow> nat" where
  "rand_Intn st n = st mod n"

subsection \<open>checkForKRBError, sendUDP, sendTCP\<close>

definition checkForKRBError :: "transport_env \<Rightarrow> byte list \<Rightarrow> byte list \<times> error option" where
  "checkForKRBError env b =
     (case KRBError_Unmarshal env b of
        Some KRBErr' \<Rightarrow> (b, Some (KRBErr KRBErr'))
      | None \<Rightarrow> (b, None))"

text \<open>The read buffers hold 4096 octets; \<open>r\<close> is the part of the buffer that was filled.\<close>

definition sendUDP ::
  "transport_env \<Rightarrow> string \<Rightarrow> byte list \<Rightarrow> transport list
     \<Rightarrow> (byte list \<times> error option) \<times> transport list" where
  "sendUDP env kdc b tr =
     (let r = [] in
      (case udp_exchange env kdc b (length tr) of
         ResolveFails \<Rightarrow> (r, Some ErrorResolving)
       | DialFails \<Rightarrow> (r, Some ErrorConnecting)
       | WriteFails \<Rightarrow> (r, Some ErrorSending)
       | ReadFails udpbuf \<Rightarrow> (take 4096 udpbuf, Some SendingOverUDPFailed)
       | ReadOk udpbuf \<Rightarrow> checkForKRBError env (take 4096 udpbuf),
       tr @ [UDP]))"

text \<open>\<open>binary.Write(&buf, binary.BigEndian, uint32(len(b)))\<close>: the length, cut to 32 bits.\<close>

definition length_prefix :: "byte list \<Rightarrow> byte list" where
  "length_prefix b =
     (let n = (word_of_nat (length b) :: 32 word) in
      [ucast (drop_bit 24 n), ucast (drop_bit 16 n), ucast (drop_bit 8 n), ucast n])"

text \<open>
  \<open>r = tcpbuf[:n]\<close> has length \<open>n\<close>, and \<open>r[4:]\<close> is \<open>r[4:len(r)]\<close>: Go panics with
  "slice bounds out of range" when \<open>4 > len(r)\<close>.
\<close>

definition sendTCP ::
  "transport_env \<Rightarrow> string \<Rightarrow> byte list \<Rightarrow> transport list
     \<Rightarrow> (byte list \<times> error option) exec \<times> transport list" where
  "sendTCP env kdc b tr =
     (let r = [] in
      (case tcp_exchange env kdc (length_prefix b @ b) (length tr) of
         ResolveFails \<Rightarrow> Returns (r, Some ErrorResolving)
       | DialFails \<Rightarrow> Returns (r, Some ErrorConnecting)
       | WriteFails \<Rightarrow> Returns (r, Some ErrorSending)
       | ReadFails tcpbuf \<Rightarrow> Returns (r, Some SendingOverTCPFailed)
       | ReadOk tcpbuf \<Rightarrow>
           (let r = take 4096 tcpbuf in
            if length r < 4 then Panics
            else Returns (checkForKRBError env (drop 4 r))),
       tr @ [TCP]))"

subsection \<open>SendToKDC\<close>

text \<open>The loop over the realms: the KDC list of the first realm with the default name.\<close>

fun realm_kdcs :: "config_Realm list \<Rightarrow> string \<Rightarrow> string list" where
  "realm_kdcs [] d = []"
| "realm_kdcs (r # rs) d = (if Realm r = d then Kdc r else realm_kdcs rs d)"

text \<open>The last three statements of each of the three branches.\<close>

definition no_response_or_check ::
  "transport_env \<Rightarrow> string \<Rightarrow> byte list \<Rightarrow> byte list \<times> error option" where
  "no_response_or_check env kdc rb =
     (if length rb < 1 then (rb, Some (NoResponseData kdc)) else checkForKRBError env rb)"

text \<open>Udp_preference_limit is 1: TCP only.\<close>

definition tcp_only ::
  "transport_env \<Rightarrow> string \<Rightarrow> byte list \<Rightarrow> transport list
     \<Rightarrow> (byte list \<times> error option) exec \<times> transport list" where
  "tcp_only env kdc b tr =
     (case sendTCP env kdc b tr of
        (Panics, tr1) \<Rightarrow> (Panics, tr1)
      | (Returns (rb, Some errtcp), tr1) \<Rightarrow> (Returns (rb, Some (FailedViaTCP kdc errtcp)), tr1)
      | (Returns (rb, None), tr1) \<Rightarrow> (Returns (no_response_or_check env kdc rb), tr1))"

text \<open>
  The request fits the limit: UDP first. Each \<open>rb, errtcp := sendTCP(kdc, b)\<close> of this
  branch stands in a nested block, so it declares a new \<open>rb\<close> that is visible in that
  block only: the enclosing \<open>rb\<close>, the one set by \<open>sendUDP\<close>, is what the statements
  after the block read. The bytes of a TCP exchange are therefore used only in the
  \<open>return\<close> inside its block.
\<close>

definition udp_too_big_retry ::
  "transport_env \<Rightarrow> string \<Rightarrow> byte list \<Rightarrow> byte list \<Rightarrow> transport list
     \<Rightarrow> (byte list \<times> error option) exec \<times> transport list" where
  "udp_too_big_retry env kdc b rb tr =
     (case KRBError_Unmarshal env rb of
        None \<Rightarrow> (Returns (no_response_or_check env kdc rb), tr)
      | Some KRBErr' \<Rightarrow>
          if ErrorCode KRBErr' = KRB_ERR_RESPONSE_TOO_BIG then
            (case sendTCP env kdc b tr of
               (Panics, tr1) \<Rightarrow> (Panics, tr1)
             | (Returns (rb', Some errtcp), tr1) \<Rightarrow>
                 (Returns (rb', Some (TooBigThenTCPFailed kdc errtcp)), tr1)
             | (Returns (rb', None), tr1) \<Rightarrow> (Returns (no_response_or_check env kdc rb), tr1))
          else (Returns (no_response_or_check env kdc rb), tr))"

definition udp_first ::
  "transport_env \<Rightarrow> string \<Rightarrow> byte list \<Rightarrow> transport list
     \<Rightarrow> (byte list \<times> error option) exec \<times> transport list" where
  "udp_first env kdc b tr =
     (case sendUDP env kdc b tr of
        ((rb, None), tr1) \<Rightarrow> udp_too_big_retry env kdc b rb tr1
      | ((rb, Some errudp), tr1) \<Rightarrow>
          (case sendTCP env kdc b tr1 of
             (Panics, tr2) \<Rightarrow> (Panics, tr2)
           | (Returns (rb', Some errtcp), tr2) \<Rightarrow>
               (Returns (rb', Some (FailedViaUDPThenTCP kdc errudp errtcp)), tr2)
           | (Returns (rb', None), tr2) \<Rightarrow> udp_too_big_retry env kdc b rb tr2))"

text \<open>
  The request is longer than the limit: TCP first. Here the first \<open>rb\<close> is the one of
  the function body, and the \<open>rb\<close> of the UDP fallback is again local to its block.
\<close>

definition tcp_first ::
  "transport_env \<Rightarrow> string \<Rightarrow> byte list \<Rightarrow> transport list
     \<Rightarrow> (byte list \<times> error option) exec \<times> transport list" where
  "tcp_first env kdc b tr =
     (case sendTCP env kdc b tr of
        (Panics, tr1) \<Rightarrow> (Panics, tr1)
      | (Returns (rb, None), tr1) \<Rightarrow> (Returns (no_response_or_check env kdc rb), tr1)
      | (Returns (rb, Some errtcp), tr1) \<Rightarrow>
          (case sendUDP env kdc b tr1 of
             ((rb', Some errudp), tr2) \<Rightarrow>
               (Returns (rb', Some (FailedViaTCPThenUDP kdc errtcp errudp)), tr2)
           | ((rb', None), tr2) \<Rightarrow> (Returns (no_response_or_check env kdc rb), tr2)))"

definition SendToKDC ::
  "transport_env \<Rightarrow> Config \<Rightarrow> byte list \<Rightarrow> transport list
     \<Rightarrow> (byte list \<times> error option) exec \<times> transport list" where
  "SendToKDC env cfg b tr =
     (let rb = [];
          kdcs = realm_kdcs (Realms cfg) (Default_realm (LibDefaults cfg))
      in if length kdcs < 1 then
           (Returns (rb, Some (NoKDCsDefined (Default_realm (LibDefaults cfg)))), tr)
         else
           (let kdc = (if length kdcs > 1 then kdcs ! rand_Intn (rand_state env) (length kdcs)
                       else kdcs ! 0)
            in if Udp_preference_limit (LibDefaults cfg) = 1 then tcp_only env kdc b tr
               else if int (length b) \<le> Udp_preference_limit (LibDefaults cfg)
                 then udp_first env kdc b tr
               else tcp_first env kdc b tr))"

section \<open>Package messages: the KDC reply\<close>

subsection \<open>Time\<close>

text \<open>
  A \<open>time.Time\<close> is an instant, here its distance from the Unix epoch in nanoseconds;
  the type reaches far beyond what a Duration can hold, so the distance is an unbounded
  integer. \<open>UTC()\<close> changes the location an instant is printed in, not the instant.
  \<open>t.Sub(u)\<close> is the Duration \<open>t - u\<close>, and the largest or smallest Duration when
  the difference does not fit. The zero Time, which an absent optional field decodes to,
  is 1 January of year 1.
\<close>

type_synonym Time = int

definition maxDuration :: int where
  "maxDuration = 2 ^ 63 - 1"

definition minDuration :: int where
  "minDuration = - (2 ^ 63)"

definition Second :: int where
  "Second = 1000000000"

definition zero_Time :: Time where
  "zero_Time = - 62135596800 * Second"

definition time_Sub :: "Time \<Rightarrow> Time \<Rightarrow> Duration" where
  "time_Sub t u =
     (let d = t - u
      in if d > maxDuration then word_of_int maxDuration
         else if d < minDuration then word_of_int minDuration
         else word_of_int d)"

text \<open>\<open>a > b\<close> on two Durations compares them as signed numbers.\<close>

definition Duration_gt :: "Duration \<Rightarrow> Duration \<Rightarrow> bool" where
  "Duration_gt a b = (sint a > sint b)"

subsection \<open>The types of package types that the reply uses\<close>

text \<open>
  A slice field that may be nil is an option: \<open>None\<close> is nil, \<open>Some []\<close> an empty
  slice that is not nil. \<open>len\<close> and \<open>range\<close> treat both alike, the comparison
  with nil does not.
\<close>

record PrincipalName =
  NameType :: int
  NameString :: "string list option"

record EncryptedData =
  EType :: int
  KVNO :: int
  Cipher :: "byte list"

record EncryptionKey =
  KeyType :: int
  KeyValue :: "byte list"

record PAData =
  PADataType :: int
  PADataValue :: "byte list"

record HostAddress =
  AddrType :: int
  Address :: "byte list"

record PAReqEncPARep =
  ChksumType :: int
  Chksum :: "byte list"

definition slice_of :: "'a list option \<Rightarrow> 'a list" where
  "slice_of s = (case s of None \<Rightarrow> [] | Some xs \<Rightarrow> xs)"

text \<open>\<open>xs[i]\<close>: a panic when \<open>i\<close> is not below \<open>len(xs)\<close>.\<close>

definition index :: "'a list \<Rightarrow> nat \<Rightarrow> 'a exec" where
  "index xs i = (if i < length xs then Returns (xs ! i) else Panics)"

subsection \<open>The reply and the request\<close>

text \<open>
  The ticket is decoded by another file of the package; validation reads its \<open>SName\<close>.
\<close>

record Ticket =
  Ticket_Realm :: string
  Ticket_SName :: PrincipalName

record LastReq =
  LRType :: int
  LRValue :: Time

record EncKDCRepPart =
  Key :: EncryptionKey
  LastReqs :: "LastReq list"
  Nonce :: int
  KeyExpiration :: Time
  Flags :: "bool list"
  AuthTime :: Time
  StartTime :: Time
  EndTime :: Time
  RenewTill :: Time
  SRealm :: string
  SName :: PrincipalName
  CAddr :: "HostAddress list"
  EncPAData :: "PAData list"

record KDCRepFields =
  PVNO :: int
  MsgType :: int
  PAData :: "PAData list"
  CRealm :: string
  CName :: PrincipalName
  Ticket :: Ticket
  EncPart :: EncryptedData
  DecryptedEncPart :: EncKDCRepPart

type_synonym ASRep = KDCRepFields

type_synonym TGSRep = KDCRepFields

text \<open>
  \<open>ASReq\<close> and \<open>TGSReq\<close> are declared in another file of the package: the fields of
  the request body that validation reads, and the request's own pre-authentication data.
\<close>

record KDCReqBody =
  Req_CName :: PrincipalName
  Req_Realm :: string
  Req_SName :: PrincipalName
  Req_Nonce :: int
  Req_Addresses :: "HostAddress list"

record KDCReqFields =
  Req_PAData :: "PAData list"
  ReqBody :: KDCReqBody

type_synonym ASReq = KDCReqFields

type_synonym TGSReq = KDCReqFields

text \<open>The zero values of \<open>var key types.EncryptionKey\<close> and \<open>var denc EncKDCRepPart\<close>.\<close>

definition zero_EncryptionKey :: EncryptionKey where
  "zero_EncryptionKey = \<lparr>KeyType = 0, KeyValue = []\<rparr>"

definition zero_PrincipalName :: PrincipalName where
  "zero_PrincipalName = \<lparr>NameType = 0, NameString = None\<rparr>"

definition zero_EncKDCRepPart :: EncKDCRepPart where
  "zero_EncKDCRepPart =
     \<lparr>Key = zero_EncryptionKey, LastReqs = [], Nonce = 0, KeyExpiration = zero_Time,
      Flags = [], AuthTime = zero_Time, StartTime = zero_Time, EndTime = zero_Time,
      RenewTill = zero_Time, SRealm = [], SName = zero_PrincipalName, CAddr = [],
      EncPAData = []\<rparr>"

subsection \<open>Credentials and the collaborators of validation\<close>

text \<open>
  Modelled from the spec: package credentials is not part of the development. The spec's
  inbound interface gives Credentials as \<open>has_keytab()\<close>, \<open>has_password()\<close>,
  \<open>keytab.get_encryption_key(cname, crealm, kvno, etype)\<close> and a password accessor. A Go
  function that returns a value and an error returns both, also when the error is set.
\<close>

record Credentials =
  HasKeytab :: bool
  HasPassword :: bool
  Keytab_GetEncryptionKey ::
    "string list option \<Rightarrow> string \<Rightarrow> int \<Rightarrow> int \<Rightarrow> EncryptionKey \<times> error option"
  Password :: string

text \<open>
  The ASN.1 codec, the crypto library and the helpers of package types are taken as
  parameters, and so are the IANA numbers that the spec does not give. The codec writes
  into the value it is handed, so it takes that value and returns it as it left it.
\<close>

record collaborators =
  asn1_UnmarshalWithParams ::
    "byte list \<Rightarrow> EncKDCRepPart \<Rightarrow> int \<Rightarrow> EncKDCRepPart \<times> error option"
  crypto_GetKeyFromPassword ::
    "string \<Rightarrow> PrincipalName \<Rightarrow> string \<Rightarrow> int \<Rightarrow> PAData list
       \<Rightarrow> EncryptionKey \<times> error option"
  crypto_DecryptEncPart ::
    "EncryptedData \<Rightarrow> EncryptionKey \<Rightarrow> int \<Rightarrow> byte list \<times> error option"
  types_HostAddressesEqual :: "HostAddress list \<Rightarrow> HostAddress list \<Rightarrow> bool"
  types_IsFlagSet :: "bool list \<Rightarrow> int \<Rightarrow> bool"
  PAReqEncPARep_Unmarshal :: "byte list \<Rightarrow> PAReqEncPARep \<times> error option"
  crypto_GetChksumEtype :: "int \<Rightarrow> int \<times> error option"
  ASReq_Marshal :: "ASReq \<Rightarrow> byte list"
  engine_VerifyChecksum :: "byte list \<Rightarrow> byte list \<Rightarrow> byte list \<Rightarrow> int \<Rightarrow> int \<Rightarrow> bool"
  PA_REQ_ENC_PA_REP :: int
  PA_FX_FAST :: int
  EncPARep :: int

text \<open>
  Modelled from the spec: the application tags of iana/asnAppTag and the key usages of
  iana/keyusage, with the values of the spec's wire conventions.
\<close>

definition asnAppTag_EncASRepPart :: int where
  "asnAppTag_EncASRepPart = 25"

definition asnAppTag_EncTGSRepPart :: int where
  "asnAppTag_EncTGSRepPart = 26"

definition AS_REP_ENCPART :: int where
  "AS_REP_ENCPART = 8"

definition TGS_REP_ENCPART_SESSION_KEY :: int where
  "TGS_REP_ENCPART_SESSION_KEY = 8"

definition KEY_USAGE_AS_REQ :: int where
  "KEY_USAGE_AS_REQ = 56"

text \<open>
  Modelled from the spec: \<open>PADataSequence.Contains\<close> of package types; the spec has the
  sequence "contain" a type when one of its entries has it.
\<close>

definition Contains :: "PAData list \<Rightarrow> int \<Rightarrow> bool" where
  "Contains pas patype = list_ex (\<lambda>pa. PADataType pa = patype) pas"

subsection \<open>EncKDCRepPart.Unmarshal and the two DecryptEncPart\<close>

definition EncKDCRepPart_Unmarshal ::
  "collaborators \<Rightarrow> EncKDCRepPart \<Rightarrow> byte list \<Rightarrow> EncKDCRepPart \<times> error option" where
  "EncKDCRepPart_Unmarshal env e b =
     (case asn1_UnmarshalWithParams env b e asnAppTag_EncASRepPart of
        (e1, Some err) \<Rightarrow> asn1_UnmarshalWithParams env b e1 asnAppTag_EncTGSRepPart
      | (e1, None) \<Rightarrow> (e1, None))"

text \<open>
  The statements of \<open>ASRep.DecryptEncPart\<close> from the call of \<open>crypto.DecryptEncPart\<close>
  on, with the key chosen before. The receiver is changed on success only.
\<close>

definition ASRep_decrypt_with ::
  "collaborators \<Rightarrow> ASRep \<Rightarrow> EncryptionKey \<Rightarrow> EncryptionKey \<times> error option \<times> ASRep" where
  "ASRep_decrypt_with env k key =
     (case crypto_DecryptEncPart env (EncPart k) key AS_REP_ENCPART of
        (b, Some err) \<Rightarrow> (key, Some (ErrorDecryptingEncPart err), k)
      | (b, None) \<Rightarrow>
          (case EncKDCRepPart_Unmarshal env zero_EncKDCRepPart b of
             (denc, Some err) \<Rightarrow> (key, Some (ErrorUnmarshallingEncPart err), k)
           | (denc, None) \<Rightarrow> (key, None, k\<lparr>DecryptedEncPart := denc\<rparr>)))"

text \<open>
  The three \<open>if\<close> statements on the credentials follow each other; none is the
  \<open>else\<close> of another.
\<close>

definition ASRep_DecryptEncPart ::
  "collaborators \<Rightarrow> Credentials \<Rightarrow> ASRep \<Rightarrow> EncryptionKey \<times> error option \<times> ASRep" where
  "ASRep_DecryptEncPart env c k =
     (case (if HasKeytab c
            then Keytab_GetEncryptionKey c (NameString (CName k)) (CRealm k)
                   (KVNO (EncPart k)) (EType (EncPart k))
            else (zero_EncryptionKey, None)) of
        (key, Some err) \<Rightarrow> (key, Some (KeytabKeyFailed err), k)
      | (key, None) \<Rightarrow>
          (case (if HasPassword c
                 then crypto_GetKeyFromPassword env (Password c) (CName k) (CRealm k)
                        (EType (EncPart k)) (PAData k)
                 else (key, None)) of
             (key, Some err) \<Rightarrow> (key, Some (PasswordKeyFailed err), k)
           | (key, None) \<Rightarrow>
               if \<not> HasKeytab c \<and> \<not> HasPassword c then (key, Some NoSecretAvailable, k)
               else ASRep_decrypt_with env k key))"

definition TGSRep_DecryptEncPart ::
  "collaborators \<Rightarrow> EncryptionKey \<Rightarrow> TGSRep \<Rightarrow> error option \<times> TGSRep" where
  "TGSRep_DecryptEncPart env key k =
     (case crypto_DecryptEncPart env (EncPart k) key TGS_REP_ENCPART_SESSION_KEY of
        (b, Some err) \<Rightarrow> (Some (ErrorDecryptingEncPart err), k)
      | (b, None) \<Rightarrow>
          (case EncKDCRepPart_Unmarshal env zero_EncKDCRepPart b of
             (denc, Some err) \<Rightarrow> (Some (ErrorUnmarshallingEncPart err), k)
           | (denc, None) \<Rightarrow> (None, k\<lparr>DecryptedEncPart := denc\<rparr>)))"

subsection \<open>The loops of IsValid\<close>

text \<open>
  \<open>for i := range r { if a[i] != b[i] { return false, ... } }\<close>, over the indices
  \<open>is\<close> of \<open>r\<close>: \<open>Returns True\<close> when some pair differs (the function then returns its
  mismatch error), \<open>Returns False\<close> when the loop runs to its end, and a panic at the
  first index that \<open>a\<close> or \<open>b\<close> does not have.
\<close>

fun differ_at :: "nat list \<Rightarrow> string list \<Rightarrow> string list \<Rightarrow> bool exec" where
  "differ_at [] a b = Returns False"
| "differ_at (i # is) a b =
     (case index a i of
        Panics \<Rightarrow> Panics
      | Returns x \<Rightarrow>
          (case index b i of
             Panics \<Rightarrow> Panics
           | Returns y \<Rightarrow> if x \<noteq> y then Returns True else differ_at is a b))"

definition range_differs ::
  "string list option \<Rightarrow> string list option \<Rightarrow> string list option \<Rightarrow> bool exec" where
  "range_differs r a b = differ_at [0 ..< length (slice_of r)] (slice_of a) (slice_of b)"

text \<open>The loop over the encrypted pre-authentication data (RFC 6806): the first error, if any.\<close>

fun verify_enc_pa_rep ::
  "collaborators \<Rightarrow> ASReq \<Rightarrow> EncryptionKey \<Rightarrow> PAData list \<Rightarrow> error option" where
  "verify_enc_pa_rep env asReq key [] = None"
| "verify_enc_pa_rep env asReq key (pa # pas) =
     (if PADataType pa = PA_REQ_ENC_PA_REP env then
        (case PAReqEncPARep_Unmarshal env (PADataValue pa) of
           (pafast, Some err) \<Rightarrow> Some (FASTUnmarshalFailed err)
         | (pafast, None) \<Rightarrow>
             (case crypto_GetChksumEtype env (ChksumType pafast) of
                (etype, Some err) \<Rightarrow> Some (FASTChecksumTypeFailed err)
              | (etype, None) \<Rightarrow>
                  (let ab = ASReq_Marshal env asReq
                   in if \<not> engine_VerifyChecksum env (KeyValue key) (Chksum pafast) ab
                            KEY_USAGE_AS_REQ etype
                      then Some FASTChecksumInvalid
                      else verify_enc_pa_rep env asReq key pas)))
      else verify_enc_pa_rep env asReq key pas)"

subsection \<open>The checks on the client's name and realm\<close>

text \<open>
  Lines 342 to 352 of \<open>ASRep.IsValid\<close> and lines 423 to 433 of \<open>TGSRep.IsValid\<close>
  are the same statements on the reply and the body of the request: the error they return
  with, if any.
\<close>

definition check_CName_CRealm :: "KDCReqBody \<Rightarrow> KDCRepFields \<Rightarrow> error option exec" where
  "check_CName_CRealm body k =
     (if NameType (CName k) \<noteq> NameType (Req_CName body) \<or> NameString (CName k) = None
      then Returns (Some CNameMismatch)
      else (case range_differs (NameString (CName k)) (NameString (CName k))
                   (NameString (Req_CName body)) of
              Panics \<Rightarrow> Panics
            | Returns True \<Rightarrow> Returns (Some CNameMismatch)
            | Returns False \<Rightarrow>
                if CRealm k \<noteq> Req_Realm body then Returns (Some CRealmMismatch)
                else Returns None))"

subsection \<open>ASRep.IsValid\<close>

text \<open>
  The clock is what \<open>time.Now()\<close> returns at its first, second, ... call of one run.
  \<open>ASRep.IsValid\<close> reads it once.
\<close>

type_synonym clock = "nat \<Rightarrow> Time"

text \<open>Lines 376 to 403: the clock skew and the check of RFC 6806, after decryption.\<close>

definition ASRep_skew_and_fast ::
  "collaborators \<Rightarrow> Config \<Rightarrow> ASReq \<Rightarrow> ASRep \<Rightarrow> EncryptionKey \<Rightarrow> clock
     \<Rightarrow> bool \<times> error option" where
  "ASRep_skew_and_fast env cfg asReq k key clk =
     (let t = clk 0;
          enc = DecryptedEncPart k
      in if Duration_gt (time_Sub t (AuthTime enc)) (Clockskew (LibDefaults cfg))
            \<or> Duration_gt (time_Sub (AuthTime enc) t) (Clockskew (LibDefaults cfg))
         then (False, Some ClockSkewTooLarge)
         else if Contains (Req_PAData asReq) (PA_REQ_ENC_PA_REP env)
                 \<and> types_IsFlagSet env (Flags enc) (EncPARep env)
         then (if length (EncPAData enc) < 2 \<or> \<not> Contains (EncPAData enc) (PA_FX_FAST env)
               then (False, Some FASTNotAnswered)
               else (case verify_enc_pa_rep env asReq key (EncPAData enc) of
                       Some err \<Rightarrow> (False, Some err)
                     | None \<Rightarrow> (True, None)))
         else (True, None))"

text \<open>Lines 357 to 375: the checks on the decrypted part, from the nonce to the addresses.\<close>

definition ASRep_check_enc ::
  "collaborators \<Rightarrow> Config \<Rightarrow> ASReq \<Rightarrow> ASRep \<Rightarrow> EncryptionKey \<Rightarrow> clock
     \<Rightarrow> (bool \<times> error option) exec" where
  "ASRep_check_enc env cfg asReq k key clk =
     (let enc = DecryptedEncPart k; body = ReqBody asReq
      in if Nonce enc \<noteq> Req_Nonce body then Returns (False, Some PossibleReplay)
         else if NameType (SName enc) \<noteq> NameType (Req_SName body)
                 \<or> NameString (SName enc) = None
         then Returns (False, Some SNameMismatch)
         else (case range_differs (NameString (CName k)) (NameString (SName enc))
                      (NameString (Req_SName body)) of
                 Panics \<Rightarrow> Panics
               | Returns True \<Rightarrow> Returns (False, Some SNameMismatch)
               | Returns False \<Rightarrow>
                   if SRealm enc \<noteq> Req_Realm body then Returns (False, Some SRealmMismatch)
                   else if length (Req_Addresses body) > 0
                           \<and> \<not> types_HostAddressesEqual env (CAddr enc) (Req_Addresses body)
                   then Returns (False, Some AddressesMismatch)
                   else Returns (ASRep_skew_and_fast env cfg asReq k key clk)))"

text \<open>
  The whole function. It returns the verdict and the error, and leaves the receiver with
  the decrypted part once decryption has succeeded.
\<close>

definition ASRep_IsValid ::
  "collaborators \<Rightarrow> Config \<Rightarrow> Credentials \<Rightarrow> ASReq \<Rightarrow> ASRep \<Rightarrow> clock
     \<Rightarrow> ((bool \<times> error option) \<times> ASRep) exec" where
  "ASRep_IsValid env cfg creds asReq k clk =
     (case check_CName_CRealm (ReqBody asReq) k of
        Panics \<Rightarrow> Panics
      | Returns (Some err) \<Rightarrow> Returns ((False, Some err), k)
      | Returns None \<Rightarrow>
          (case ASRep_DecryptEncPart env creds k of
             (key, Some err, k1) \<Rightarrow> Returns ((False, Some (ErrorDecryptingASRep err)), k1)
           | (key, None, k1) \<Rightarrow>
               (case ASRep_check_enc env cfg asReq k1 key clk of
                  Panics \<Rightarrow> Panics
                | Returns v \<Rightarrow> Returns (v, k1))))"

subsection \<open>TGSRep.IsValid\<close>

text \<open>
  \<open>time.Since(x) > skew || x.Sub(time.Now().UTC()) > skew\<close>, reading the clock from its
  \<open>n\<close>-th call on: \<open>time.Since(x)\<close> is \<open>time.Now().Sub(x)\<close>, and the right operand of
  \<open>||\<close> reads the clock again, only when the left one is false. The result is the
  condition and the number of the next reading.
\<close>

definition skew_exceeded :: "clock \<Rightarrow> nat \<Rightarrow> Time \<Rightarrow> Duration \<Rightarrow> bool \<times> nat" where
  "skew_exceeded clk n x skew =
     (if Duration_gt (time_Sub (clk n) x) skew then (True, Suc n)
      else (Duration_gt (time_Sub x (clk (Suc n))) skew, Suc (Suc n)))"

definition TGSRep_skew ::
  "Config \<Rightarrow> TGSRep \<Rightarrow> clock \<Rightarrow> bool \<times> error option" where
  "TGSRep_skew cfg k clk =
     (let enc = DecryptedEncPart k; skew = Clockskew (LibDefaults cfg)
      in (case skew_exceeded clk 0 (StartTime enc) skew of
            (True, n) \<Rightarrow>
              (case skew_exceeded clk n (AuthTime enc) skew of
                 (True, n') \<Rightarrow> (False, Some ClockSkewTooLarge)
               | (False, n') \<Rightarrow> (True, None))
          | (False, n) \<Rightarrow> (True, None)))"

text \<open>Lines 434 to 466: from the nonce on.\<close>

definition TGSRep_check_enc ::
  "collaborators \<Rightarrow> Config \<Rightarrow> TGSReq \<Rightarrow> TGSRep \<Rightarrow> clock \<Rightarrow> (bool \<times> error option) exec" where
  "TGSRep_check_enc env cfg tgsReq k clk =
     (let enc = DecryptedEncPart k; body = ReqBody tgsReq; tkt = Ticket k
      in if Nonce enc \<noteq> Req_Nonce body then Returns (False, Some PossibleReplay)
         else if NameType (Ticket_SName tkt) \<noteq> NameType (Req_SName body)
                 \<or> NameString (Ticket_SName tkt) = None
         then Returns (False, Some TicketSNameMismatch)
         else (case range_differs (NameString (Ticket_SName tkt)) (NameString (Ticket_SName tkt))
                      (NameString (Req_SName body)) of
                 Panics \<Rightarrow> Panics
               | Returns True \<Rightarrow> Returns (False, Some TicketSNameMismatch)
               | Returns False \<Rightarrow>
                   if NameType (SName enc) \<noteq> NameType (Req_SName body)
                      \<or> NameString (SName enc) = None
                   then Returns (False, Some SNameMismatch)
                   else (case range_differs (NameString (CName k)) (NameString (SName enc))
                                (NameString (Req_SName body)) of
                           Panics \<Rightarrow> Panics
                         | Returns True \<Rightarrow> Returns (False, Some SNameMismatch)
                         | Returns False \<Rightarrow>
                             if SRealm enc \<noteq> Req_Realm body
                             then Returns (False, Some SRealmMismatch)
                             else if length (Req_Addresses body) > 0
                                     \<and> \<not> types_HostAddressesEqual env (CAddr enc)
                                           (Req_Addresses body)
                             then Returns (False, Some AddressesMismatch)
                             else Returns (TGSRep_skew cfg k clk))))"

definition TGSRep_IsValid ::
  "collaborators \<Rightarrow> Config \<Rightarrow> TGSReq \<Rightarrow> TGSRep \<Rightarrow> clock \<Rightarrow> (bool \<times> error option) exec" where
  "TGSRep_IsValid env cfg tgsReq k clk =
     (case check_CName_CRealm (ReqBody tgsReq) k of
        Panics \<Rightarrow> Panics
      | Returns (Some err) \<Rightarrow> Returns (False, Some err)
      | Returns None \<Rightarrow> TGSRep_check_enc env cfg tgsReq k clk)"

section \<open>Concrete collaborators and inputs\<close>

text \<open>
  Stand-ins for the collaborators, for running the functions on concrete inputs. The
  KRB-ERROR decoder accepts two octets, the identifier octet of application tag 30 and an
  error code. The network answers every UDP exchange with one datagram and every TCP
  exchange with one run of bytes.
\<close>

definition demo_KRBError_Unmarshal :: "byte list \<Rightarrow> KRBError option" where
  "demo_KRBError_Unmarshal b =
     (case b of
        [t, c] \<Rightarrow> if t = 0x7E then Some \<lparr>ErrorCode = uint c, EText = []\<rparr> else None
      | _ \<Rightarrow> None)"

definition demo_net :: "byte list \<Rightarrow> byte list \<Rightarrow> transport_env" where
  "demo_net datagram stream =
     \<lparr>KRBError_Unmarshal = demo_KRBError_Unmarshal,
      udp_exchange = (\<lambda>kdc b n. ReadOk datagram),
      tcp_exchange = (\<lambda>kdc b n. ReadOk stream),
      rand_state = 0\<rparr>"

definition demo_kdc :: string where
  "demo_kdc = ''kdc.example.com:88''"

definition demo_cfg :: "int \<Rightarrow> Config" where
  "demo_cfg limit =
     \<lparr>LibDefaults = \<lparr>Default_realm = ''EXAMPLE.COM'', Udp_preference_limit = limit,
                     Clockskew = 300000000000\<rparr>,
      Realms = [\<lparr>Realm = ''EXAMPLE.COM'', Kdc = [demo_kdc]\<rparr>]\<rparr>"

definition demo_request :: "byte list" where
  "demo_request = replicate 400 0"

text \<open>
  The codec decodes the one-octet plaintexts \<open>0x79\<close> (application tag 25) and \<open>0x7A\<close>
  (application tag 26), each under its own tag only, to the encrypted part it is given.
  Decryption hands out the cipher text under any key; the keytab and the password give
  two different keys.
\<close>

definition demo_asn1 ::
  "EncKDCRepPart \<Rightarrow> byte list \<Rightarrow> EncKDCRepPart \<Rightarrow> int \<Rightarrow> EncKDCRepPart \<times> error option" where
  "demo_asn1 enc b e tag =
     (case b of
        [t] \<Rightarrow> if uint t = 96 + tag then (enc, None)
               else (e, Some (External ''asn1: structure error''))
      | _ \<Rightarrow> (e, Some (External ''asn1: syntax error'')))"

definition demo_collab :: "EncKDCRepPart \<Rightarrow> collaborators" where
  "demo_collab enc =
     \<lparr>asn1_UnmarshalWithParams = demo_asn1 enc,
      crypto_GetKeyFromPassword =
        (\<lambda>pw cname realm etype pas. (\<lparr>KeyType = etype, KeyValue = [2]\<rparr>, None)),
      crypto_DecryptEncPart = (\<lambda>ed key usage. (Cipher ed, None)),
      types_HostAddressesEqual = (\<lambda>a b. a = b),
      types_IsFlagSet = (\<lambda>fs i. 0 \<le> i \<and> nat i < length fs \<and> fs ! nat i),
      PAReqEncPARep_Unmarshal = (\<lambda>b. (\<lparr>ChksumType = 0, Chksum = b\<rparr>, None)),
      crypto_GetChksumEtype = (\<lambda>t. (t, None)),
      ASReq_Marshal = (\<lambda>r. []),
      engine_VerifyChecksum = (\<lambda>key chk data usage etype. True),
      PA_REQ_ENC_PA_REP = 149,
      PA_FX_FAST = 136,
      EncPARep = 15\<rparr>"

definition demo_keytab_key :: EncryptionKey where
  "demo_keytab_key = \<lparr>KeyType = 18, KeyValue = [1]\<rparr>"

definition demo_password_key :: EncryptionKey where
  "demo_password_key = \<lparr>KeyType = 18, KeyValue = [2]\<rparr>"

definition demo_creds :: "bool \<Rightarrow> bool \<Rightarrow> Credentials" where
  "demo_creds keytab password =
     \<lparr>HasKeytab = keytab, HasPassword = password,
      Keytab_GetEncryptionKey = (\<lambda>ns realm kvno etype. (demo_keytab_key, None)),
      Password = (if password then ''secret'' else [])\<rparr>"

text \<open>A keytab without an entry for the principal.\<close>

definition demo_creds_miss :: "bool \<Rightarrow> Credentials" where
  "demo_creds_miss password =
     \<lparr>HasKeytab = True, HasPassword = password,
      Keytab_GetEncryptionKey =
        (\<lambda>ns realm kvno etype. (zero_EncryptionKey, Some (External ''matching key not found''))),
      Password = (if password then ''secret'' else [])\<rparr>"

text \<open>
  The request of alice@EXAMPLE.COM for krbtgt/EXAMPLE.COM with nonce 12345, and replies to
  it: the client name of the envelope, and the nonce, the service name, the start time and
  the authentication time of the encrypted part are left open.
\<close>

text \<open>
  A clock that stands still at \<open>t\<close>, and one that reads \<open>t\<close> at its first \<open>m\<close>
  readings and \<open>u\<close> from then on.
\<close>

definition steady_clock :: "Time \<Rightarrow> clock" where
  "steady_clock t = (\<lambda>n. t)"

definition clock_until :: "nat \<Rightarrow> Time \<Rightarrow> Time \<Rightarrow> clock" where
  "clock_until m t u = (\<lambda>n. if n < m then t else u)"

definition demo_now :: Time where
  "demo_now = 1793558400 * Second"

definition demo_req :: "string list \<Rightarrow> KDCReqFields" where
  "demo_req cname =
     \<lparr>Req_PAData = [],
      ReqBody = \<lparr>Req_CName = \<lparr>NameType = 1, NameString = Some cname\<rparr>,
                 Req_Realm = ''EXAMPLE.COM'',
                 Req_SName = \<lparr>NameType = 2, NameString = Some [''krbtgt'', ''EXAMPLE.COM'']\<rparr>,
                 Req_Nonce = 12345,
                 Req_Addresses = []\<rparr>\<rparr>"

definition demo_enc :: "int \<Rightarrow> string list \<Rightarrow> Time \<Rightarrow> Time \<Rightarrow> EncKDCRepPart" where
  "demo_enc nonce sname start auth =
     \<lparr>Key = \<lparr>KeyType = 18, KeyValue = [7]\<rparr>, LastReqs = [], Nonce = nonce,
      KeyExpiration = zero_Time, Flags = [], AuthTime = auth, StartTime = start,
      EndTime = auth + 36000 * Second, RenewTill = zero_Time, SRealm = ''EXAMPLE.COM'',
      SName = \<lparr>NameType = 2, NameString = Some sname\<rparr>, CAddr = [], EncPAData = []\<rparr>"

definition demo_rep :: "string list \<Rightarrow> byte list \<Rightarrow> EncKDCRepPart \<Rightarrow> KDCRepFields" where
  "demo_rep cname cipher denc =
     \<lparr>PVNO = 5, MsgType = 11, PAData = [], CRealm = ''EXAMPLE.COM'',
      CName = \<lparr>NameType = 1, NameString = Some cname\<rparr>,
      Ticket = \<lparr>Ticket_Realm = ''EXAMPLE.COM'',
                Ticket_SName = \<lparr>NameType = 2, NameString = Some [''krbtgt'', ''EXAMPLE.COM'']\<rparr>\<rparr>,
      EncPart = \<lparr>EType = 18, KVNO = 1, Cipher = cipher\<rparr>,
      DecryptedEncPart = denc\<rparr>"

text \<open>
  The encrypted part that answers the request, the AS-REP as it is received (nothing
  decrypted yet, the cipher text decoding under tag 25) and the TGS-REP as its caller
  has decrypted it.
\<close>

definition demo_good_enc :: EncKDCRepPart where
  "demo_good_enc = demo_enc 12345 [''krbtgt'', ''EXAMPLE.COM''] demo_now demo_now"

definition demo_as_rep :: ASRep where
  "demo_as_rep = demo_rep [''alice''] [0x79] zero_EncKDCRepPart"

definition demo_tgs_rep :: "EncKDCRepPart \<Rightarrow> TGSRep" where
  "demo_tgs_rep denc = demo_rep [''alice''] [0x7A] denc"

section \<open>The transport on concrete exchanges\<close>

lemmas transport_defs =
  SendToKDC_def udp_first_def udp_too_big_retry_def tcp_only_def tcp_first_def sendUDP_def
  sendTCP_def checkForKRBError_def no_response_or_check_def KRB_ERR_RESPONSE_TOO_BIG_def
  rand_Intn_def demo_net_def demo_cfg_def demo_request_def demo_KRBError_Unmarshal_def
  demo_kdc_def

text \<open>
  Claim C2 says: for a request within udp_preference_limit, when the UDP reply is a
  KRB-ERROR with code 52, SendToKDC retries over TCP and, when the TCP exchange succeeds,
  returns the TCP payload and not the bytes of the UDP KRB-ERROR.

  The code at such an input: a request of 400 octets with a limit of 1500, the datagram
  \<open>7E 34\<close> (a KRB-ERROR with code 52) and a TCP answer of four length octets and the
  payload \<open>6B 00\<close>. The TCP exchange returns its payload without an error, and it is
  made twice: once because \<open>sendUDP\<close> hands the KRB-ERROR back as its error, once for
  code 52. Both results are assigned to an \<open>rb\<close> of their own block, so SendToKDC
  returns the bytes of the UDP KRB-ERROR, with the KRB-ERROR as the error.
\<close>

theorem SendToKDC_too_big_returns_udp_bytes:
  "sendTCP (demo_net [0x7E, 52] [0, 0, 0, 2, 0x6B, 0]) demo_kdc demo_request [UDP]
     = (Returns ([0x6B, 0], None), [UDP, TCP])
   \<and> SendToKDC (demo_net [0x7E, 52] [0, 0, 0, 2, 0x6B, 0]) (demo_cfg 1500) demo_request []
     = (Returns ([0x7E, 52], Some (KRBErr \<lparr>ErrorCode = 52, EText = []\<rparr>)), [UDP, TCP, TCP])"
  by (simp add: transport_defs)

text \<open>
  Claim C5 says: a KRB-ERROR that SendToKDC receives is surfaced unchanged, as its bytes
  and a typed error with the protocol error code, and only code 52 makes the transport
  switch to TCP; a KRB-ERROR with another code received over UDP starts no TCP exchange.

  The code at such an input: the KDC answers the request with a KRB-ERROR of code 25 on
  both transports. The UDP reply alone starts a TCP exchange, and since \<open>sendTCP\<close>
  also hands the KRB-ERROR back as its error, the caller gets the untyped error of a
  failed communication over UDP and then TCP. With a limit of 1 (TCP only) the same
  KRB-ERROR comes back inside the untyped error of a failed communication over TCP.
\<close>

theorem SendToKDC_krb_error_contacts_tcp:
  "SendToKDC (demo_net [0x7E, 25] [0, 0, 0, 2, 0x7E, 25]) (demo_cfg 1500) demo_request []
     = (Returns ([0x7E, 25],
                 Some (FailedViaUDPThenTCP demo_kdc (KRBErr \<lparr>ErrorCode = 25, EText = []\<rparr>)
                         (KRBErr \<lparr>ErrorCode = 25, EText = []\<rparr>))),
        [UDP, TCP])
   \<and> SendToKDC (demo_net [] [0, 0, 0, 2, 0x7E, 25]) (demo_cfg 1) demo_request []
     = (Returns ([0x7E, 25],
                 Some (FailedViaTCP demo_kdc (KRBErr \<lparr>ErrorCode = 25, EText = []\<rparr>))),
        [TCP])"
  by (simp add: transport_defs)

text \<open>
  Claim C9 says: sendTCP is total in how it strips the four length octets; a response of
  which fewer than four octets were read gives an error return, not a slice out of range.

  The code at such an input: the read delivers two octets and no error. \<open>r[4:]\<close> is
  then out of range and the call panics, and so does SendToKDC on its TCP-only branch.
\<close>

theorem sendTCP_short_read_panics:
  "sendTCP (demo_net [] [0, 0]) demo_kdc demo_request [] = (Panics, [TCP])
   \<and> SendToKDC (demo_net [] [0, 0]) (demo_cfg 1) demo_request [] = (Panics, [TCP])"
  by (simp add: transport_defs)

section \<open>Validation on concrete replies\<close>

lemmas validation_defs =
  ASRep_IsValid_def TGSRep_IsValid_def check_CName_CRealm_def range_differs_def slice_of_def
  index_def ASRep_DecryptEncPart_def ASRep_decrypt_with_def TGSRep_DecryptEncPart_def
  EncKDCRepPart_Unmarshal_def
  ASRep_check_enc_def ASRep_skew_and_fast_def TGSRep_check_enc_def TGSRep_skew_def
  skew_exceeded_def Duration_gt_def time_Sub_def Contains_def maxDuration_def minDuration_def
  Second_def asnAppTag_EncASRepPart_def asnAppTag_EncTGSRepPart_def
  demo_collab_def demo_asn1_def demo_creds_def demo_creds_miss_def demo_req_def demo_enc_def
  demo_rep_def demo_good_enc_def demo_as_rep_def demo_tgs_rep_def demo_now_def demo_cfg_def
  demo_kdc_def demo_keytab_key_def demo_password_key_def steady_clock_def clock_until_def

text \<open>
  Claim C1 says: IsValid returns false whenever the SName of the decrypted part differs
  from the SName of the request, in the name type or in any element of the name strings,
  for AS-REP and TGS-REP alike.

  The code at such an input: the request is for krbtgt/EXAMPLE.COM, the encrypted part
  names krbtgt/OTHER.COM, and the client name alice has one component. The loop that
  compares the two service names runs over the indices of \<open>k.CName.NameString\<close>, so
  only the first components are compared, and both functions accept the reply.
\<close>

theorem IsValid_SName_compared_on_CName_indices:
  "ASRep_IsValid
       (demo_collab (demo_enc 12345 [''krbtgt'', ''OTHER.COM''] demo_now demo_now))
       (demo_cfg 1500) (demo_creds False True) (demo_req [''alice'']) demo_as_rep
       (steady_clock demo_now)
     = Returns ((True, None),
         demo_rep [''alice''] [0x79]
           (demo_enc 12345 [''krbtgt'', ''OTHER.COM''] demo_now demo_now))
   \<and> TGSRep_IsValid (demo_collab zero_EncKDCRepPart) (demo_cfg 1500) (demo_req [''alice''])
       (demo_tgs_rep (demo_enc 12345 [''krbtgt'', ''OTHER.COM''] demo_now demo_now))
       (steady_clock demo_now)
     = Returns (True, None)"
  by (simp add: validation_defs)

text \<open>
  Claim C10 says: the comparison of the client names never indexes the request's name
  strings out of range and accepts no reply whose name strings have another length: a
  shorter reply name fails validation, a longer one returns a failure.

  The code at such inputs: a reply for alice/admin to a request of alice panics at index
  1 of the request's name strings, in both functions; a reply for alice to a request of
  alice/admin passes the comparison on the matching first component, and both functions
  accept it.
\<close>

theorem IsValid_CName_length_unchecked:
  "TGSRep_IsValid (demo_collab zero_EncKDCRepPart) (demo_cfg 1500) (demo_req [''alice''])
       (demo_rep [''alice'', ''admin''] [0x7A] demo_good_enc) (steady_clock demo_now)
     = Panics
   \<and> ASRep_IsValid (demo_collab demo_good_enc) (demo_cfg 1500) (demo_creds False True)
       (demo_req [''alice'']) (demo_rep [''alice'', ''admin''] [0x79] zero_EncKDCRepPart)
       (steady_clock demo_now)
     = Panics
   \<and> TGSRep_IsValid (demo_collab zero_EncKDCRepPart) (demo_cfg 1500)
       (demo_req [''alice'', ''admin'']) (demo_tgs_rep demo_good_enc) (steady_clock demo_now)
     = Returns (True, None)
   \<and> ASRep_IsValid (demo_collab demo_good_enc) (demo_cfg 1500) (demo_creds False True)
       (demo_req [''alice'', ''admin'']) demo_as_rep (steady_clock demo_now)
     = Returns ((True, None), demo_rep [''alice''] [0x79] demo_good_enc)"
  by (simp add: validation_defs)

section \<open>The decoder of the encrypted part\<close>

text \<open>
  Claim C7: EncKDCRepPart.Unmarshal first decodes under application tag 25; exactly when
  that fails it decodes again under tag 26, whatever the kind of the reply, and it
  returns an error when both fail. In the model: when the decode under 25 succeeds the
  result is that decode's; when it fails the result is the decode under 26, on the value
  as the first attempt left it; the result is an error exactly when both are; and both
  \<open>ASRep.DecryptEncPart\<close> (from the chosen key on) and \<open>TGSRep.DecryptEncPart\<close>
  take the decrypted part, or their error, from this one function.
\<close>

theorem EncKDCRepPart_Unmarshal_tag_fallback:
  "(snd (asn1_UnmarshalWithParams env b e 25) = None \<longrightarrow>
      EncKDCRepPart_Unmarshal env e b = asn1_UnmarshalWithParams env b e 25)
   \<and> (snd (asn1_UnmarshalWithParams env b e 25) \<noteq> None \<longrightarrow>
      EncKDCRepPart_Unmarshal env e b
        = asn1_UnmarshalWithParams env b (fst (asn1_UnmarshalWithParams env b e 25)) 26)
   \<and> (snd (EncKDCRepPart_Unmarshal env e b) \<noteq> None \<longleftrightarrow>
        snd (asn1_UnmarshalWithParams env b e 25) \<noteq> None
        \<and> snd (asn1_UnmarshalWithParams env b (fst (asn1_UnmarshalWithParams env b e 25)) 26)
            \<noteq> None)
   \<and> (crypto_DecryptEncPart env (EncPart k) key AS_REP_ENCPART = (b, None) \<longrightarrow>
        ASRep_decrypt_with env k key
          = (case EncKDCRepPart_Unmarshal env zero_EncKDCRepPart b of
               (denc, Some err) \<Rightarrow> (key, Some (ErrorUnmarshallingEncPart err), k)
             | (denc, None) \<Rightarrow> (key, None, k\<lparr>DecryptedEncPart := denc\<rparr>)))
   \<and> (crypto_DecryptEncPart env (EncPart k) key TGS_REP_ENCPART_SESSION_KEY = (b, None) \<longrightarrow>
        TGSRep_DecryptEncPart env key k
          = (case EncKDCRepPart_Unmarshal env zero_EncKDCRepPart b of
               (denc, Some err) \<Rightarrow> (Some (ErrorUnmarshallingEncPart err), k)
             | (denc, None) \<Rightarrow> (None, k\<lparr>DecryptedEncPart := denc\<rparr>)))"
  by (auto simp: EncKDCRepPart_Unmarshal_def asnAppTag_EncASRepPart_def
      asnAppTag_EncTGSRepPart_def ASRep_decrypt_with_def TGSRep_DecryptEncPart_def
      split: prod.splits option.splits)

text \<open>
  The theorem at work: a plaintext under tag 25, one under tag 26 and one under neither;
  an AS-REP whose plaintext carries tag 26 and a TGS-REP whose plaintext carries tag 25
  are both decoded.
\<close>

theorem EncKDCRepPart_Unmarshal_tag_fallback_witness:
  "snd (asn1_UnmarshalWithParams (demo_collab demo_good_enc) [0x79] zero_EncKDCRepPart 25) = None
   \<and> EncKDCRepPart_Unmarshal (demo_collab demo_good_enc) zero_EncKDCRepPart [0x79]
       = (demo_good_enc, None)
   \<and> snd (asn1_UnmarshalWithParams (demo_collab demo_good_enc) [0x7A] zero_EncKDCRepPart 25)
       = Some (External ''asn1: structure error'')
   \<and> EncKDCRepPart_Unmarshal (demo_collab demo_good_enc) zero_EncKDCRepPart [0x7A]
       = (demo_good_enc, None)
   \<and> EncKDCRepPart_Unmarshal (demo_collab demo_good_enc) zero_EncKDCRepPart [0x30]
       = (zero_EncKDCRepPart, Some (External ''asn1: structure error''))
   \<and> crypto_DecryptEncPart (demo_collab demo_good_enc)
         (EncPart (demo_tgs_rep zero_EncKDCRepPart)) demo_password_key AS_REP_ENCPART
       = ([0x7A], None)
   \<and> ASRep_decrypt_with (demo_collab demo_good_enc) (demo_tgs_rep zero_EncKDCRepPart)
         demo_password_key
       = (demo_password_key, None, demo_tgs_rep demo_good_enc)
   \<and> crypto_DecryptEncPart (demo_collab demo_good_enc) (EncPart demo_as_rep)
         demo_password_key TGS_REP_ENCPART_SESSION_KEY
       = ([0x79], None)
   \<and> TGSRep_DecryptEncPart (demo_collab demo_good_enc) demo_password_key demo_as_rep
       = (None, demo_rep [''alice''] [0x79] demo_good_enc)"
  using EncKDCRepPart_Unmarshal_tag_fallback
      [of "demo_collab demo_good_enc" "[0x79]" zero_EncKDCRepPart
          "demo_tgs_rep zero_EncKDCRepPart" demo_password_key]
    EncKDCRepPart_Unmarshal_tag_fallback
      [of "demo_collab demo_good_enc" "[0x7A]" zero_EncKDCRepPart
          "demo_tgs_rep zero_EncKDCRepPart" demo_password_key]
    EncKDCRepPart_Unmarshal_tag_fallback
      [of "demo_collab demo_good_enc" "[0x30]" zero_EncKDCRepPart
          demo_as_rep demo_password_key]
  by (simp add: validation_defs)

section \<open>The key of ASRep.DecryptEncPart\<close>

text \<open>
  Claim C3 says: when the credentials hold a keytab, the decryption key is the keytab
  entry matched by (cname, crealm, kvno, etype), and a miss is a failure; only when no
  keytab is held and a password is held is the key derived from the password and the
  envelope's pre-authentication data; with neither, it fails with the no-secret error.

  The code at such an input: credentials that hold both a keytab and a password. The
  keytab is consulted first, and a miss is a failure although a password is held; but
  when the lookup finds the keytab key, the second \<open>if\<close>, which is not the
  \<open>else\<close> of the first, derives a key from the password and assigns it to the same
  variable. The function decrypts with, and returns, the password's key, not the keytab
  entry.
\<close>

theorem ASRep_DecryptEncPart_password_over_keytab:
  "HasKeytab (demo_creds True True) \<and> HasPassword (demo_creds True True)
   \<and> Keytab_GetEncryptionKey (demo_creds True True) (NameString (CName demo_as_rep))
       (CRealm demo_as_rep) (KVNO (EncPart demo_as_rep)) (EType (EncPart demo_as_rep))
       = (demo_keytab_key, None)
   \<and> ASRep_DecryptEncPart (demo_collab demo_good_enc) (demo_creds True True) demo_as_rep
       \<noteq> ASRep_decrypt_with (demo_collab demo_good_enc) demo_as_rep demo_keytab_key
   \<and> ASRep_DecryptEncPart (demo_collab demo_good_enc) (demo_creds True True) demo_as_rep
       = ASRep_decrypt_with (demo_collab demo_good_enc) demo_as_rep demo_password_key
   \<and> fst (ASRep_DecryptEncPart (demo_collab demo_good_enc) (demo_creds True True) demo_as_rep)
       = demo_password_key
   \<and> ASRep_DecryptEncPart (demo_collab demo_good_enc) (demo_creds_miss True) demo_as_rep
       = (zero_EncryptionKey, Some (KeytabKeyFailed (External ''matching key not found'')),
          demo_as_rep)"
  by (simp add: validation_defs)

section \<open>The nonce\<close>

lemma verify_enc_pa_rep_errors:
  "verify_enc_pa_rep env r key pas = Some err \<Longrightarrow> err \<noteq> PossibleReplay \<and> err \<noteq> ClockSkewTooLarge"
  by (induction pas) (auto split: if_splits prod.splits option.splits simp: Let_def)

lemma ASRep_skew_and_fast_no_replay:
  "ASRep_skew_and_fast env cfg asReq k key clk \<noteq> (False, Some PossibleReplay)"
  by (auto simp: ASRep_skew_and_fast_def Let_def split: option.splits dest: verify_enc_pa_rep_errors)

lemma TGSRep_skew_no_replay: "TGSRep_skew cfg k clk \<noteq> (False, Some PossibleReplay)"
  by (auto simp: TGSRep_skew_def Let_def split: prod.splits bool.splits)

lemma ASRep_check_enc_replay:
  "ASRep_check_enc env cfg asReq k key clk = Returns (False, Some PossibleReplay)
     \<longleftrightarrow> Nonce (DecryptedEncPart k) \<noteq> Req_Nonce (ReqBody asReq)"
  by (auto simp: ASRep_check_enc_def Let_def ASRep_skew_and_fast_no_replay
      split: exec.splits bool.splits)

lemma TGSRep_check_enc_replay:
  "TGSRep_check_enc env cfg tgsReq k clk = Returns (False, Some PossibleReplay)
     \<longleftrightarrow> Nonce (DecryptedEncPart k) \<noteq> Req_Nonce (ReqBody tgsReq)"
  by (auto simp: TGSRep_check_enc_def Let_def TGSRep_skew_no_replay
      split: exec.splits bool.splits)


text \<open>
  Claim C4: for every nonce, a reply whose decrypted nonce differs from the request's is
  rejected by IsValid with the replay error, and a reply whose decrypted nonce equals it
  passes the nonce check, for AS-REP and TGS-REP. The nonce is the first thing checked
  after the client's name and realm (and, for an AS-REP, the decryption): once these have
  passed, a different nonce gives exactly the replay error and an equal nonce never does;
  and whatever the earlier checks do, a reply with a different nonce is never accepted.
\<close>

theorem IsValid_nonce_check:
  "(check_CName_CRealm (ReqBody asReq) k = Returns None
      \<and> ASRep_DecryptEncPart env creds k = (key, None, k1) \<longrightarrow>
        (Nonce (DecryptedEncPart k1) \<noteq> Req_Nonce (ReqBody asReq) \<longrightarrow>
           ASRep_IsValid env cfg creds asReq k clk = Returns ((False, Some PossibleReplay), k1))
        \<and> (Nonce (DecryptedEncPart k1) = Req_Nonce (ReqBody asReq) \<longrightarrow>
           (\<forall>k'. ASRep_IsValid env cfg creds asReq k clk
                   \<noteq> Returns ((False, Some PossibleReplay), k'))))
   \<and> (check_CName_CRealm (ReqBody tgsReq) t = Returns None \<longrightarrow>
        (Nonce (DecryptedEncPart t) \<noteq> Req_Nonce (ReqBody tgsReq) \<longrightarrow>
           TGSRep_IsValid env cfg tgsReq t clk = Returns (False, Some PossibleReplay))
        \<and> (Nonce (DecryptedEncPart t) = Req_Nonce (ReqBody tgsReq) \<longrightarrow>
           TGSRep_IsValid env cfg tgsReq t clk \<noteq> Returns (False, Some PossibleReplay)))
   \<and> (ASRep_DecryptEncPart env creds k = (key, None, k1)
        \<and> Nonce (DecryptedEncPart k1) \<noteq> Req_Nonce (ReqBody asReq) \<longrightarrow>
        (\<forall>e k'. ASRep_IsValid env cfg creds asReq k clk \<noteq> Returns ((True, e), k')))
   \<and> (Nonce (DecryptedEncPart t) \<noteq> Req_Nonce (ReqBody tgsReq) \<longrightarrow>
        (\<forall>e. TGSRep_IsValid env cfg tgsReq t clk \<noteq> Returns (True, e)))"
proof (intro conjI impI allI)
  assume h: "check_CName_CRealm (ReqBody asReq) k = Returns None
      \<and> ASRep_DecryptEncPart env creds k = (key, None, k1)"
  { assume "Nonce (DecryptedEncPart k1) \<noteq> Req_Nonce (ReqBody asReq)"
    with h show "ASRep_IsValid env cfg creds asReq k clk
        = Returns ((False, Some PossibleReplay), k1)"
      by (simp add: ASRep_IsValid_def ASRep_check_enc_replay [THEN iffD2]) }
  { fix k' assume "Nonce (DecryptedEncPart k1) = Req_Nonce (ReqBody asReq)"
    with h ASRep_check_enc_replay [of env cfg asReq k1 key clk]
    show "ASRep_IsValid env cfg creds asReq k clk \<noteq> Returns ((False, Some PossibleReplay), k')"
      by (auto simp: ASRep_IsValid_def split: exec.splits) }
next
  assume h: "check_CName_CRealm (ReqBody tgsReq) t = Returns None"
  { assume "Nonce (DecryptedEncPart t) \<noteq> Req_Nonce (ReqBody tgsReq)"
    with h show "TGSRep_IsValid env cfg tgsReq t clk = Returns (False, Some PossibleReplay)"
      by (simp add: TGSRep_IsValid_def TGSRep_check_enc_replay [THEN iffD2]) }
  { assume "Nonce (DecryptedEncPart t) = Req_Nonce (ReqBody tgsReq)"
    with h TGSRep_check_enc_replay [of env cfg tgsReq t clk]
    show "TGSRep_IsValid env cfg tgsReq t clk \<noteq> Returns (False, Some PossibleReplay)"
      by (simp add: TGSRep_IsValid_def) }
next
  fix e k'
  assume h: "ASRep_DecryptEncPart env creds k = (key, None, k1)
        \<and> Nonce (DecryptedEncPart k1) \<noteq> Req_Nonce (ReqBody asReq)"
  then have "ASRep_check_enc env cfg asReq k1 key clk = Returns (False, Some PossibleReplay)"
    by (simp add: ASRep_check_enc_replay)
  with h show "ASRep_IsValid env cfg creds asReq k clk \<noteq> Returns ((True, e), k')"
    by (auto simp: ASRep_IsValid_def split: exec.splits option.splits)
next
  fix e
  assume "Nonce (DecryptedEncPart t) \<noteq> Req_Nonce (ReqBody tgsReq)"
  then have "TGSRep_check_enc env cfg tgsReq t clk = Returns (False, Some PossibleReplay)"
    by (simp add: TGSRep_check_enc_replay)
  then show "TGSRep_IsValid env cfg tgsReq t clk \<noteq> Returns (True, e)"
    by (auto simp: TGSRep_IsValid_def split: exec.splits option.splits)
qed


text \<open>
  The theorem at work: the reply to nonce 12345 carries 12346, or 12345; and a reply with
  the wrong nonce to a request of another client is not accepted either.
\<close>

theorem IsValid_nonce_check_witness:
  "ASRep_IsValid (demo_collab (demo_enc 12346 [''krbtgt'', ''EXAMPLE.COM''] demo_now demo_now))
       (demo_cfg 1500) (demo_creds False True) (demo_req [''alice'']) demo_as_rep (steady_clock demo_now)
     = Returns ((False, Some PossibleReplay),
         demo_rep [''alice''] [0x79] (demo_enc 12346 [''krbtgt'', ''EXAMPLE.COM''] demo_now demo_now))
   \<and> ASRep_IsValid (demo_collab demo_good_enc) (demo_cfg 1500) (demo_creds False True)
       (demo_req [''alice'']) demo_as_rep (steady_clock demo_now)
     \<noteq> Returns ((False, Some PossibleReplay), demo_rep [''alice''] [0x79] demo_good_enc)
   \<and> TGSRep_IsValid (demo_collab demo_good_enc) (demo_cfg 1500) (demo_req [''alice''])
       (demo_tgs_rep (demo_enc 12346 [''krbtgt'', ''EXAMPLE.COM''] demo_now demo_now))
       (steady_clock demo_now)
     = Returns (False, Some PossibleReplay)
   \<and> TGSRep_IsValid (demo_collab demo_good_enc) (demo_cfg 1500) (demo_req [''alice''])
       (demo_tgs_rep demo_good_enc) (steady_clock demo_now)
     \<noteq> Returns (False, Some PossibleReplay)
   \<and> ASRep_IsValid (demo_collab (demo_enc 12346 [''krbtgt'', ''EXAMPLE.COM''] demo_now demo_now))
       (demo_cfg 1500) (demo_creds False True) (demo_req [''bob'']) demo_as_rep (steady_clock demo_now)
     \<noteq> Returns ((True, None), demo_as_rep)
   \<and> TGSRep_IsValid (demo_collab demo_good_enc) (demo_cfg 1500) (demo_req [''bob''])
       (demo_tgs_rep (demo_enc 12346 [''krbtgt'', ''EXAMPLE.COM''] demo_now demo_now))
       (steady_clock demo_now)
     \<noteq> Returns (True, None)"
proof -
  let ?bad = "demo_enc 12346 [''krbtgt'', ''EXAMPLE.COM''] demo_now demo_now"
  have c: "check_CName_CRealm (ReqBody (demo_req [''alice''])) (demo_rep [''alice''] ci denc)
      = Returns None" for ci denc
    by (simp add: validation_defs)
  have d: "ASRep_DecryptEncPart (demo_collab denc) (demo_creds False True) demo_as_rep
      = (demo_password_key, None, demo_rep [''alice''] [0x79] denc)" for denc
    by (simp add: validation_defs)
  have n: "Nonce (DecryptedEncPart (demo_rep cn ci ?bad)) \<noteq> Req_Nonce (ReqBody (demo_req rn))"
    "Nonce (DecryptedEncPart (demo_rep cn ci demo_good_enc)) = Req_Nonce (ReqBody (demo_req rn))"
    for cn ci rn
    by (simp_all add: demo_rep_def demo_enc_def demo_req_def demo_good_enc_def)
  note t = IsValid_nonce_check
  have 1: "ASRep_IsValid (demo_collab ?bad) (demo_cfg 1500) (demo_creds False True)
       (demo_req [''alice'']) demo_as_rep (steady_clock demo_now)
     = Returns ((False, Some PossibleReplay), demo_rep [''alice''] [0x79] ?bad)"
    using t [THEN conjunct1, rule_format, THEN conjunct1, rule_format,
        where asReq = "demo_req [''alice'']" and k = demo_as_rep and env = "demo_collab ?bad"
          and creds = "demo_creds False True" and key = demo_password_key
          and ?k1.0 = "demo_rep [''alice''] [0x79] ?bad"]
      c d n by (simp add: demo_as_rep_def)
  have 2: "ASRep_IsValid (demo_collab demo_good_enc) (demo_cfg 1500) (demo_creds False True)
       (demo_req [''alice'']) demo_as_rep (steady_clock demo_now)
     \<noteq> Returns ((False, Some PossibleReplay), demo_rep [''alice''] [0x79] demo_good_enc)"
    using t [THEN conjunct1, rule_format, THEN conjunct2, rule_format,
        where asReq = "demo_req [''alice'']" and k = demo_as_rep
          and env = "demo_collab demo_good_enc" and creds = "demo_creds False True"
          and key = demo_password_key and ?k1.0 = "demo_rep [''alice''] [0x79] demo_good_enc"]
      c d n by (simp add: demo_as_rep_def)
  have 3: "TGSRep_IsValid (demo_collab demo_good_enc) (demo_cfg 1500) (demo_req [''alice''])
       (demo_tgs_rep ?bad) (steady_clock demo_now) = Returns (False, Some PossibleReplay)"
    using t [THEN conjunct2, THEN conjunct1, rule_format, THEN conjunct1, rule_format,
        where tgsReq = "demo_req [''alice'']" and t = "demo_tgs_rep ?bad"]
      c n by (simp add: demo_tgs_rep_def)
  have 4: "TGSRep_IsValid (demo_collab demo_good_enc) (demo_cfg 1500) (demo_req [''alice''])
       (demo_tgs_rep demo_good_enc) (steady_clock demo_now) \<noteq> Returns (False, Some PossibleReplay)"
    using t [THEN conjunct2, THEN conjunct1, rule_format, THEN conjunct2, rule_format,
        where tgsReq = "demo_req [''alice'']" and t = "demo_tgs_rep demo_good_enc"]
      c n by (simp add: demo_tgs_rep_def)
  have 5: "ASRep_IsValid (demo_collab ?bad) (demo_cfg 1500) (demo_creds False True)
       (demo_req [''bob'']) demo_as_rep (steady_clock demo_now) \<noteq> Returns ((True, None), demo_as_rep)"
    using t [THEN conjunct2, THEN conjunct2, THEN conjunct1, rule_format,
        where env = "demo_collab ?bad" and creds = "demo_creds False True" and k = demo_as_rep
          and key = demo_password_key and ?k1.0 = "demo_rep [''alice''] [0x79] ?bad"
          and asReq = "demo_req [''bob'']"]
      d n by (simp add: demo_as_rep_def)
  have 6: "TGSRep_IsValid (demo_collab demo_good_enc) (demo_cfg 1500) (demo_req [''bob''])
       (demo_tgs_rep ?bad) (steady_clock demo_now) \<noteq> Returns (True, None)"
    using t [THEN conjunct2, THEN conjunct2, THEN conjunct2, rule_format,
        where t = "demo_tgs_rep ?bad" and tgsReq = "demo_req [''bob'']"]
      n by (simp add: demo_tgs_rep_def)
  from 1 2 3 4 5 6 show ?thesis by blast
qed

section \<open>The clock\<close>

lemma sint_word_of_int_64:
  "- (2 ^ 63) \<le> (d :: int) \<Longrightarrow> d < 2 ^ 63 \<Longrightarrow> sint (word_of_int d :: 64 word) = d"
  by (simp add: sint_sbintrunc' signed_take_bit_int_eq_self)

lemma sint_time_Sub:
  assumes "minDuration \<le> t - u" and "t - u \<le> maxDuration"
  shows "sint (time_Sub t u) = t - u"
proof -
  from assms have "\<not> t - u > maxDuration" and "\<not> t - u < minDuration" by linarith+
  then have "time_Sub t u = word_of_int (t - u)"
    unfolding time_Sub_def Let_def by (simp only: if_False)
  moreover from assms have "sint (word_of_int (t - u) :: 64 word) = t - u"
    by (intro sint_word_of_int_64) (simp_all add: maxDuration_def minDuration_def)
  ultimately show ?thesis by (simp only:)
qed

lemma sint_time_Sub_max: "maxDuration < t - u \<Longrightarrow> sint (time_Sub t u) = maxDuration"
  by (simp add: time_Sub_def maxDuration_def minDuration_def)

lemma sint_time_Sub_min: "t - u < minDuration \<Longrightarrow> sint (time_Sub t u) = minDuration"
  by (simp add: time_Sub_def maxDuration_def minDuration_def)

lemma sint_Duration_range: "minDuration \<le> sint (c :: Duration) \<and> sint c \<le> maxDuration"
  using sint_ge [of c] sint_lt [of c] by (simp add: maxDuration_def minDuration_def)

text \<open>
  One side of the check, without the saturation and the machine integers: a difference
  of at most the skew never exceeds it, and a larger one always does, unless the skew
  is the largest Duration, which the saturated difference cannot exceed.
\<close>

lemma Duration_gt_time_Sub_le:
  assumes "t - x \<le> sint (c :: Duration)"
  shows "\<not> Duration_gt (time_Sub t x) c"
proof (cases "t - x < minDuration")
  case True
  then show ?thesis
    using sint_Duration_range [of c] by (simp add: Duration_gt_def sint_time_Sub_min)
next
  case False
  with assms sint_Duration_range [of c] have "sint (time_Sub t x) = t - x"
    by (intro sint_time_Sub) linarith+
  with assms show ?thesis by (simp add: Duration_gt_def)
qed

lemma Duration_gt_time_Sub_gt:
  assumes "sint (c :: Duration) < t - x" and "sint c < maxDuration"
  shows "Duration_gt (time_Sub t x) c"
proof (cases "maxDuration < t - x")
  case True
  with assms show ?thesis by (simp add: Duration_gt_def sint_time_Sub_max)
next
  case False
  with assms sint_Duration_range [of c] have "sint (time_Sub t x) = t - x"
    by (intro sint_time_Sub) linarith+
  with assms show ?thesis by (simp add: Duration_gt_def)
qed

lemma skew_within:
  assumes "\<bar>t - x\<bar> \<le> sint (c :: Duration)"
  shows "\<not> Duration_gt (time_Sub t x) c \<and> \<not> Duration_gt (time_Sub x t) c"
proof -
  from assms have "t - x \<le> sint c" and "x - t \<le> sint c" by linarith+
  then show ?thesis by (simp add: Duration_gt_time_Sub_le)
qed

lemma skew_beyond:
  assumes "sint (c :: Duration) < \<bar>t - x\<bar>" and "sint c < maxDuration"
  shows "Duration_gt (time_Sub t x) c \<or> Duration_gt (time_Sub x t) c"
proof -
  from assms(1) have "sint c < t - x \<or> sint c < x - t" by linarith
  with assms(2) show ?thesis by (auto intro: Duration_gt_time_Sub_gt)
qed

lemma skew_check_iff:
  assumes "sint (c :: Duration) < maxDuration"
  shows "(Duration_gt (time_Sub t x) c \<or> Duration_gt (time_Sub x t) c) \<longleftrightarrow> sint c < \<bar>t - x\<bar>"
proof
  assume "Duration_gt (time_Sub t x) c \<or> Duration_gt (time_Sub x t) c"
  with skew_within [of t x c] show "sint c < \<bar>t - x\<bar>" by (cases "\<bar>t - x\<bar> \<le> sint c") auto
next
  assume "sint c < \<bar>t - x\<bar>"
  then show "Duration_gt (time_Sub t x) c \<or> Duration_gt (time_Sub x t) c"
    using assms by (rule skew_beyond)
qed







lemma TGSRep_skew_const:
  "TGSRep_skew cfg t (steady_clock now) =
     (if (Duration_gt (time_Sub now (StartTime (DecryptedEncPart t))) (Clockskew (LibDefaults cfg))
          \<or> Duration_gt (time_Sub (StartTime (DecryptedEncPart t)) now) (Clockskew (LibDefaults cfg)))
         \<and> (Duration_gt (time_Sub now (AuthTime (DecryptedEncPart t))) (Clockskew (LibDefaults cfg))
          \<or> Duration_gt (time_Sub (AuthTime (DecryptedEncPart t)) now) (Clockskew (LibDefaults cfg)))
      then (False, Some ClockSkewTooLarge) else (True, None))"
  by (auto simp: TGSRep_skew_def skew_exceeded_def Let_def steady_clock_def
      split: prod.splits bool.splits)

lemma TGSRep_skew_bound:
  assumes "sint (Clockskew (LibDefaults cfg)) < maxDuration"
  shows "TGSRep_skew cfg t (steady_clock now) =
     (if sint (Clockskew (LibDefaults cfg)) < \<bar>now - StartTime (DecryptedEncPart t)\<bar>
         \<and> sint (Clockskew (LibDefaults cfg)) < \<bar>now - AuthTime (DecryptedEncPart t)\<bar>
      then (False, Some ClockSkewTooLarge) else (True, None))"
  unfolding TGSRep_skew_const skew_check_iff [OF assms] by (rule refl)



lemma ASRep_skew_and_fast_clock:
  "clk 0 = clk' 0 \<Longrightarrow>
     ASRep_skew_and_fast env cfg asReq k key clk = ASRep_skew_and_fast env cfg asReq k key clk'"
  by (simp add: ASRep_skew_and_fast_def)

lemma ASRep_skew_and_fast_same_side:
  assumes "sint (Clockskew (LibDefaults cfg)) < maxDuration"
    and "(\<bar>clk 0 - AuthTime (DecryptedEncPart k)\<bar> \<le> sint (Clockskew (LibDefaults cfg)))
       = (\<bar>clk' 0 - AuthTime (DecryptedEncPart k)\<bar> \<le> sint (Clockskew (LibDefaults cfg)))"
  shows "ASRep_skew_and_fast env cfg asReq k key clk
       = ASRep_skew_and_fast env cfg asReq k key clk'"
proof -
  from assms(2)
  have "(sint (Clockskew (LibDefaults cfg)) < \<bar>clk 0 - AuthTime (DecryptedEncPart k)\<bar>)
      = (sint (Clockskew (LibDefaults cfg)) < \<bar>clk' 0 - AuthTime (DecryptedEncPart k)\<bar>)"
    by linarith
  then show ?thesis
    unfolding ASRep_skew_and_fast_def Let_def skew_check_iff [OF assms(1)] by (simp only:)
qed

lemma ASRep_check_enc_cong:
  assumes "ASRep_skew_and_fast env cfg asReq k key clk
       = ASRep_skew_and_fast env cfg asReq k key clk'"
  shows "ASRep_check_enc env cfg asReq k key clk = ASRep_check_enc env cfg asReq k key clk'"
  unfolding ASRep_check_enc_def using assms by (simp only:)

lemma TGSRep_skew_clock:
  assumes "clk 0 = clk' 0 \<and> clk 1 = clk' 1 \<and> clk 2 = clk' 2 \<and> clk 3 = clk' 3"
  shows "TGSRep_skew cfg k clk = TGSRep_skew cfg k clk'"
proof -
  from assms have e: "clk 0 = clk' 0" "clk 1 = clk' 1" "clk 2 = clk' 2" "clk 3 = clk' 3"
    by simp_all
  then show ?thesis
    by (auto simp: TGSRep_skew_def skew_exceeded_def Let_def numeral_2_eq_2 numeral_3_eq_3
        split: prod.splits bool.splits)
qed

lemma TGSRep_IsValid_cong:
  assumes "TGSRep_skew cfg t clk = TGSRep_skew cfg t clk'"
  shows "TGSRep_IsValid env cfg tgsReq t clk = TGSRep_IsValid env cfg tgsReq t clk'"
  unfolding TGSRep_IsValid_def TGSRep_check_enc_def using assms by (simp only:)

text \<open>
  Claim C8, as amended: reply validation is a function of the reply, the request, the
  configuration, the credentials and the time it reads from the system clock for the
  skew check, the codec, the crypto library and the keytab being taken as functions of
  their arguments. Two runs of ASRep.IsValid on identical inputs yield the same result
  when their one reading of the clock is the same, and more generally when both readings
  are within the skew of the auth_time or both beyond it; when decryption fails the clock
  is of no account. Two runs of TGSRep.IsValid on identical inputs yield the same result
  when their first four readings of the clock are the same, and, each run reading one
  time throughout, when the skew check on start_time and auth_time comes out the same
  for the two times.
\<close>

theorem IsValid_function_of_inputs_and_clock:
  "(clk 0 = clk' 0 \<longrightarrow>
      ASRep_IsValid env cfg creds asReq k clk = ASRep_IsValid env cfg creds asReq k clk')
   \<and> (clk 0 = clk' 0 \<and> clk 1 = clk' 1 \<and> clk 2 = clk' 2 \<and> clk 3 = clk' 3 \<longrightarrow>
      TGSRep_IsValid env cfg tgsReq t clk = TGSRep_IsValid env cfg tgsReq t clk')
   \<and> (ASRep_DecryptEncPart env creds k = (key, None, k1)
        \<and> sint (Clockskew (LibDefaults cfg)) < maxDuration
        \<and> (\<bar>clk 0 - AuthTime (DecryptedEncPart k1)\<bar> \<le> sint (Clockskew (LibDefaults cfg)))
          = (\<bar>clk' 0 - AuthTime (DecryptedEncPart k1)\<bar> \<le> sint (Clockskew (LibDefaults cfg)))
        \<longrightarrow>
      ASRep_IsValid env cfg creds asReq k clk = ASRep_IsValid env cfg creds asReq k clk')
   \<and> (ASRep_DecryptEncPart env creds k = (key, Some err, k1) \<longrightarrow>
      ASRep_IsValid env cfg creds asReq k clk = ASRep_IsValid env cfg creds asReq k clk')
   \<and> (sint (Clockskew (LibDefaults cfg)) < maxDuration
        \<and> (sint (Clockskew (LibDefaults cfg)) < \<bar>now - StartTime (DecryptedEncPart t)\<bar>
            \<and> sint (Clockskew (LibDefaults cfg)) < \<bar>now - AuthTime (DecryptedEncPart t)\<bar>)
          = (sint (Clockskew (LibDefaults cfg)) < \<bar>now' - StartTime (DecryptedEncPart t)\<bar>
            \<and> sint (Clockskew (LibDefaults cfg)) < \<bar>now' - AuthTime (DecryptedEncPart t)\<bar>)
        \<longrightarrow>
      TGSRep_IsValid env cfg tgsReq t (steady_clock now)
        = TGSRep_IsValid env cfg tgsReq t (steady_clock now'))"
proof (intro conjI impI)
  assume "clk 0 = clk' 0"
  then have "ASRep_skew_and_fast env cfg asReq k2 key2 clk
      = ASRep_skew_and_fast env cfg asReq k2 key2 clk'" for k2 key2
    by (rule ASRep_skew_and_fast_clock)
  then have "ASRep_check_enc env cfg asReq k2 key2 clk
      = ASRep_check_enc env cfg asReq k2 key2 clk'" for k2 key2
    by (rule ASRep_check_enc_cong)
  then show "ASRep_IsValid env cfg creds asReq k clk = ASRep_IsValid env cfg creds asReq k clk'"
    unfolding ASRep_IsValid_def by (simp only:)
next
  assume "clk 0 = clk' 0 \<and> clk 1 = clk' 1 \<and> clk 2 = clk' 2 \<and> clk 3 = clk' 3"
  then have "TGSRep_skew cfg t clk = TGSRep_skew cfg t clk'" by (rule TGSRep_skew_clock)
  then show "TGSRep_IsValid env cfg tgsReq t clk = TGSRep_IsValid env cfg tgsReq t clk'"
    by (rule TGSRep_IsValid_cong)
next
  assume a: "ASRep_DecryptEncPart env creds k = (key, None, k1)
        \<and> sint (Clockskew (LibDefaults cfg)) < maxDuration
        \<and> (\<bar>clk 0 - AuthTime (DecryptedEncPart k1)\<bar> \<le> sint (Clockskew (LibDefaults cfg)))
          = (\<bar>clk' 0 - AuthTime (DecryptedEncPart k1)\<bar> \<le> sint (Clockskew (LibDefaults cfg)))"
  then have "ASRep_skew_and_fast env cfg asReq k1 key clk
      = ASRep_skew_and_fast env cfg asReq k1 key clk'"
    by (intro ASRep_skew_and_fast_same_side) simp_all
  then have "ASRep_check_enc env cfg asReq k1 key clk = ASRep_check_enc env cfg asReq k1 key clk'"
    by (rule ASRep_check_enc_cong)
  with a show "ASRep_IsValid env cfg creds asReq k clk
      = ASRep_IsValid env cfg creds asReq k clk'"
    by (simp add: ASRep_IsValid_def split: exec.splits option.splits)
next
  assume "ASRep_DecryptEncPart env creds k = (key, Some err, k1)"
  then show "ASRep_IsValid env cfg creds asReq k clk = ASRep_IsValid env cfg creds asReq k clk'"
    by (simp add: ASRep_IsValid_def split: exec.splits option.splits)
next
  assume "sint (Clockskew (LibDefaults cfg)) < maxDuration
        \<and> (sint (Clockskew (LibDefaults cfg)) < \<bar>now - StartTime (DecryptedEncPart t)\<bar>
            \<and> sint (Clockskew (LibDefaults cfg)) < \<bar>now - AuthTime (DecryptedEncPart t)\<bar>)
          = (sint (Clockskew (LibDefaults cfg)) < \<bar>now' - StartTime (DecryptedEncPart t)\<bar>
            \<and> sint (Clockskew (LibDefaults cfg)) < \<bar>now' - AuthTime (DecryptedEncPart t)\<bar>)"
  then have "TGSRep_skew cfg t (steady_clock now) = TGSRep_skew cfg t (steady_clock now')"
    by (simp add: TGSRep_skew_bound)
  then show "TGSRep_IsValid env cfg tgsReq t (steady_clock now)
      = TGSRep_IsValid env cfg tgsReq t (steady_clock now')"
    by (rule TGSRep_IsValid_cong)
qed

text \<open>
  The theorem at work: two clocks that differ from the second reading on for an AS-REP,
  and from the fifth on for a TGS-REP; two runs 200 seconds apart, both within the skew
  of 300 seconds, and two runs 900 seconds apart, both beyond it; and an AS-REP for
  credentials without a secret, now and at the epoch.
\<close>

theorem IsValid_function_of_inputs_and_clock_witness:
  "ASRep_IsValid (demo_collab demo_good_enc) (demo_cfg 1500) (demo_creds False True)
       (demo_req [''alice'']) demo_as_rep (steady_clock demo_now)
     = ASRep_IsValid (demo_collab demo_good_enc) (demo_cfg 1500) (demo_creds False True)
       (demo_req [''alice'']) demo_as_rep (clock_until 1 demo_now 0)
   \<and> TGSRep_IsValid (demo_collab demo_good_enc) (demo_cfg 1500) (demo_req [''alice''])
       (demo_tgs_rep demo_good_enc) (steady_clock demo_now)
     = TGSRep_IsValid (demo_collab demo_good_enc) (demo_cfg 1500) (demo_req [''alice''])
       (demo_tgs_rep demo_good_enc) (clock_until 4 demo_now 0)
   \<and> ASRep_IsValid (demo_collab demo_good_enc) (demo_cfg 1500) (demo_creds False True)
       (demo_req [''alice'']) demo_as_rep (steady_clock demo_now)
     = ASRep_IsValid (demo_collab demo_good_enc) (demo_cfg 1500) (demo_creds False True)
       (demo_req [''alice'']) demo_as_rep (steady_clock (demo_now + 200 * Second))
   \<and> ASRep_IsValid (demo_collab demo_good_enc) (demo_cfg 1500) (demo_creds False True)
       (demo_req [''alice'']) demo_as_rep (steady_clock (demo_now + 400 * Second))
     = ASRep_IsValid (demo_collab demo_good_enc) (demo_cfg 1500) (demo_creds False True)
       (demo_req [''alice'']) demo_as_rep (steady_clock (demo_now - 500 * Second))
   \<and> ASRep_IsValid (demo_collab demo_good_enc) (demo_cfg 1500) (demo_creds False False)
       (demo_req [''alice'']) demo_as_rep (steady_clock demo_now)
     = ASRep_IsValid (demo_collab demo_good_enc) (demo_cfg 1500) (demo_creds False False)
       (demo_req [''alice'']) demo_as_rep (steady_clock 0)
   \<and> TGSRep_IsValid (demo_collab demo_good_enc) (demo_cfg 1500) (demo_req [''alice''])
       (demo_tgs_rep demo_good_enc) (steady_clock demo_now)
     = TGSRep_IsValid (demo_collab demo_good_enc) (demo_cfg 1500) (demo_req [''alice''])
       (demo_tgs_rep demo_good_enc) (steady_clock (demo_now + 200 * Second))
   \<and> TGSRep_IsValid (demo_collab demo_good_enc) (demo_cfg 1500) (demo_req [''alice''])
       (demo_tgs_rep demo_good_enc) (steady_clock (demo_now + 400 * Second))
     = TGSRep_IsValid (demo_collab demo_good_enc) (demo_cfg 1500) (demo_req [''alice''])
       (demo_tgs_rep demo_good_enc) (steady_clock (demo_now - 500 * Second))"
proof -
  let ?env = "demo_collab demo_good_enc" and ?cfg = "demo_cfg 1500"
    and ?creds = "demo_creds False True" and ?req = "demo_req [''alice'']"
    and ?k1 = "demo_rep [''alice''] [0x79] demo_good_enc"
  note t = IsValid_function_of_inputs_and_clock
  have d: "ASRep_DecryptEncPart ?env ?creds demo_as_rep = (demo_password_key, None, ?k1)"
    "ASRep_DecryptEncPart ?env (demo_creds False False) demo_as_rep
      = (zero_EncryptionKey, Some NoSecretAvailable, demo_as_rep)"
    by (simp_all add: validation_defs)
  have s: "sint (Clockskew (LibDefaults ?cfg)) = 300 * Second"
    "sint (Clockskew (LibDefaults ?cfg)) < maxDuration"
    by (simp_all add: demo_cfg_def Second_def maxDuration_def)
  have a: "AuthTime (DecryptedEncPart ?k1) = demo_now"
    "StartTime (DecryptedEncPart (demo_tgs_rep demo_good_enc)) = demo_now"
    "AuthTime (DecryptedEncPart (demo_tgs_rep demo_good_enc)) = demo_now"
    by (simp_all add: demo_rep_def demo_tgs_rep_def demo_good_enc_def demo_enc_def)
  note ev = Second_def steady_clock_def clock_until_def demo_now_def
  have 1: "ASRep_IsValid ?env ?cfg ?creds ?req demo_as_rep (steady_clock demo_now)
      = ASRep_IsValid ?env ?cfg ?creds ?req demo_as_rep (clock_until 1 demo_now 0)"
    using t [THEN conjunct1, rule_format,
        where clk = "steady_clock demo_now" and clk' = "clock_until 1 demo_now 0"]
    by (simp add: steady_clock_def clock_until_def)
  have 2: "TGSRep_IsValid ?env ?cfg ?req (demo_tgs_rep demo_good_enc) (steady_clock demo_now)
      = TGSRep_IsValid ?env ?cfg ?req (demo_tgs_rep demo_good_enc) (clock_until 4 demo_now 0)"
    using t [THEN conjunct2, THEN conjunct1, rule_format,
        where clk = "steady_clock demo_now" and clk' = "clock_until 4 demo_now 0"]
    by (simp add: steady_clock_def clock_until_def)
  have 3: "ASRep_IsValid ?env ?cfg ?creds ?req demo_as_rep (steady_clock demo_now)
      = ASRep_IsValid ?env ?cfg ?creds ?req demo_as_rep (steady_clock (demo_now + 200 * Second))"
    using t [THEN conjunct2, THEN conjunct2, THEN conjunct1, rule_format,
        where env = ?env and creds = ?creds and k = demo_as_rep and key = demo_password_key
          and ?k1.0 = ?k1 and cfg = ?cfg and clk = "steady_clock demo_now"
          and clk' = "steady_clock (demo_now + 200 * Second)"] d s a by (simp add: ev)
  have 4: "ASRep_IsValid ?env ?cfg ?creds ?req demo_as_rep
        (steady_clock (demo_now + 400 * Second))
      = ASRep_IsValid ?env ?cfg ?creds ?req demo_as_rep (steady_clock (demo_now - 500 * Second))"
    using t [THEN conjunct2, THEN conjunct2, THEN conjunct1, rule_format,
        where env = ?env and creds = ?creds and k = demo_as_rep and key = demo_password_key
          and ?k1.0 = ?k1 and cfg = ?cfg and clk = "steady_clock (demo_now + 400 * Second)"
          and clk' = "steady_clock (demo_now - 500 * Second)"] d s a by (simp add: ev)
  have 5: "ASRep_IsValid ?env ?cfg (demo_creds False False) ?req demo_as_rep
        (steady_clock demo_now)
      = ASRep_IsValid ?env ?cfg (demo_creds False False) ?req demo_as_rep (steady_clock 0)"
    using t [THEN conjunct2, THEN conjunct2, THEN conjunct2, THEN conjunct1, rule_format,
        where env = ?env and creds = "demo_creds False False" and k = demo_as_rep] d
    by simp
  have 6: "TGSRep_IsValid ?env ?cfg ?req (demo_tgs_rep demo_good_enc) (steady_clock demo_now)
      = TGSRep_IsValid ?env ?cfg ?req (demo_tgs_rep demo_good_enc)
          (steady_clock (demo_now + 200 * Second))"
    using t [THEN conjunct2, THEN conjunct2, THEN conjunct2, THEN conjunct2, rule_format,
        where cfg = ?cfg and t = "demo_tgs_rep demo_good_enc" and now = demo_now
          and now' = "demo_now + 200 * Second"] s a by (simp add: ev)
  have 7: "TGSRep_IsValid ?env ?cfg ?req (demo_tgs_rep demo_good_enc)
          (steady_clock (demo_now + 400 * Second))
      = TGSRep_IsValid ?env ?cfg ?req (demo_tgs_rep demo_good_enc)
          (steady_clock (demo_now - 500 * Second))"
    using t [THEN conjunct2, THEN conjunct2, THEN conjunct2, THEN conjunct2, rule_format,
        where cfg = ?cfg and t = "demo_tgs_rep demo_good_enc"
          and now = "demo_now + 400 * Second" and now' = "demo_now - 500 * Second"] s a
    by (simp add: ev)
  from 1 2 3 4 5 6 7 show ?thesis by blast
qed

text \<open>
  Claim C8 as stated makes the verdict a function of the reply, the request, the
  configuration and the credentials alone. The same AS-REP, request, configuration
  and credentials are accepted now and rejected 301 seconds later.
\<close>

theorem IsValid_verdict_changes_with_clock:
  "ASRep_IsValid (demo_collab demo_good_enc) (demo_cfg 1500) (demo_creds False True)
       (demo_req [''alice'']) demo_as_rep (steady_clock demo_now)
     = Returns ((True, None), demo_rep [''alice''] [0x79] demo_good_enc)
   \<and> ASRep_IsValid (demo_collab demo_good_enc) (demo_cfg 1500) (demo_creds False True)
       (demo_req [''alice'']) demo_as_rep (steady_clock (demo_now + 301 * Second))
     = Returns ((False, Some ClockSkewTooLarge), demo_rep [''alice''] [0x79] demo_good_enc)"
  by (simp add: validation_defs)

end
